theory Spec2Isabelle
  imports Main
begin

section \<open>Python values, exceptions and the outside world\<close>

text \<open>
  The hooks are Python classes that talk to a remote API. The embedding keeps the
  mutable attributes of a hook in a record that every method takes and returns, and
  keeps everything outside the program (the wall clock, the HTTP server, the token
  store of the warehouse) in a record \<open>world\<close>: the clock and the server are functions
  that say what the n-th reading and the n-th request give, and \<open>trace\<close> lists, in order,
  every request sent and every sleep taken. A raised exception is the left injection
  of the result. Logging is left out.
\<close>

datatype error =
    TypeError | NameError | ValueError | KeyError | AttributeError | IndexError
  | HTTPError | JSONDecodeError | BadZipFile | RetryError | AirflowNotFound

text \<open>
  Values that come out of \<open>response.json()\<close>. JSON numbers are integers here; a dict
  is the list of its items, looked up from the front.
\<close>

datatype json =
    JNull
  | JBool bool
  | JInt int
  | JStr string
  | JArr "json list"
  | JObj "(string \<times> json) list"

text \<open>Python's truth value of such a value, as \<open>if cursor:\<close> and \<open>while cursor:\<close> read it.\<close>

fun truthy :: "json \<Rightarrow> bool" where
  "truthy JNull = False"
| "truthy (JBool b) = b"
| "truthy (JInt i) = (i \<noteq> 0)"
| "truthy (JStr s) = (s \<noteq> [])"
| "truthy (JArr xs) = (xs \<noteq> [])"
| "truthy (JObj kvs) = (kvs \<noteq> [])"

text \<open>
  \<open>d.get(k)\<close>: the value, or None for a missing key; on a value that is not a dict
  (None, a string, a list, a number) the attribute \<open>get\<close> does not exist.
\<close>

fun json_get :: "json \<Rightarrow> string \<Rightarrow> error + json" where
  "json_get (JObj kvs) k = Inr (case map_of kvs k of None \<Rightarrow> JNull | Some v \<Rightarrow> v)"
| "json_get _ k = Inl AttributeError"

text \<open>\<open>d[k]\<close> on a dict raises KeyError for a missing key; other values are not subscripted by a string.\<close>

fun json_item :: "json \<Rightarrow> string \<Rightarrow> error + json" where
  "json_item (JObj kvs) k = (case map_of kvs k of None \<Rightarrow> Inl KeyError | Some v \<Rightarrow> Inr v)"
| "json_item _ k = Inl TypeError"

text \<open>
  An f-string is the list of its pieces: literal text, and values formatted by \<open>str\<close>,
  which stay symbolic.
\<close>

datatype piece = Lit string | Fmt json

type_synonym fstring = "piece list"

text \<open>
  The verb of a request is fixed by the function called (\<open>requests.get\<close>,
  \<open>requests.post\<close>) or is \<open>mode.upper()\<close> of a string. A query parameter is a value or
  \<open>str\<close> of a value.
\<close>

datatype verb = GET | POST | Upper string

datatype param = Val json | StrOf json

record request =
  verb :: verb
  url :: fstring
  params :: "(string \<times> param) list"
  headers :: "(string \<times> fstring) list"
  payload :: json
  files :: json
  stream :: bool

record response =
  status_code :: nat
  body :: "json option"
  content :: string

text \<open>\<open>response.json()\<close> raises when the body is not JSON.\<close>

definition response_json :: "response \<Rightarrow> error + json" where
  "response_json r = (case body r of None \<Rightarrow> Inl JSONDecodeError | Some j \<Rightarrow> Inr j)"

text \<open>\<open>response.raise_for_status()\<close> raises HTTPError for a status from 400 to 599.\<close>

definition raise_for_status :: "response \<Rightarrow> error + unit" where
  "raise_for_status r =
     (if 400 \<le> status_code r \<and> status_code r < 600 then Inl HTTPError else Inr ())"

text \<open>
  A timestamp is a number of microseconds since the epoch, the resolution of
  \<open>datetime\<close>. The exported token of the warehouse carries its expiry as text, with
  what \<open>strptime\<close> makes of it (None when the text does not match the format).
\<close>

type_synonym datetime = int

definition seconds :: "int \<Rightarrow> int" where
  "seconds n = n * 1000000"

record exported_token =
  exported_value :: json
  exported_expiry :: string
  exported_parsed :: "datetime option"

text \<open>A timestamp attribute holds a datetime, or text where the code has stored text.\<close>

datatype stamp = Datetime datetime | Text string

datatype event = Request request | Sleep nat | Query

text \<open>The Airflow connection: login, password and the parsed extra field.\<close>

record connection =
  login :: string
  password :: string
  extra :: json

record world =
  clock :: "nat \<Rightarrow> datetime"
  ticks :: nat
  connections :: "string \<Rightarrow> connection option"
  server :: "nat \<Rightarrow> response"
  warehouse :: "nat \<Rightarrow> error + exported_token"
  trace :: "event list"

definition utcnow :: "world \<Rightarrow> datetime \<times> world" where
  "utcnow w = (clock w (ticks w), w\<lparr>ticks := Suc (ticks w)\<rparr>)"

fun is_request :: "event \<Rightarrow> bool" where
  "is_request (Request r) = True"
| "is_request _ = False"


definition requests_sent :: "world \<Rightarrow> nat" where
  "requests_sent w = length (filter is_request (trace w))"

text \<open>\<open>requests.request\<close>: the request is recorded and the server's next answer comes back.\<close>

definition http :: "request \<Rightarrow> world \<Rightarrow> response \<times> world" where
  "http rq w = (server w (requests_sent w), w\<lparr>trace := trace w @ [Request rq]\<rparr>)"


definition sleep :: "nat \<Rightarrow> world \<Rightarrow> world" where
  "sleep n w = w\<lparr>trace := trace w @ [Sleep n]\<rparr>"

text \<open>
  Binding the positional arguments of a call to a method with \<open>required\<close> parameters
  and \<open>optional\<close> more after \<open>self\<close>: too few or too many raise TypeError before the
  body runs.
\<close>

definition bind_positional :: "nat \<Rightarrow> nat \<Rightarrow> 'a list \<Rightarrow> error + 'a list" where
  "bind_positional required optional args =
     (if length args < required \<or> required + optional < length args
      then Inl TypeError else Inr args)"

text \<open>
  Binding the keyword arguments of a call: a keyword that names no parameter raises
  TypeError before the body runs.
\<close>

definition bind_keywords :: "string list \<Rightarrow> (string \<times> 'a) list \<Rightarrow> error + (string \<times> 'a) list" where
  "bind_keywords names kws =
     (if list_all (\<lambda>(k, v). k \<in> set names) kws then Inr kws else Inl TypeError)"

text \<open>
  Looking a name up in the scopes of a function body: the locals, then the names the
  module binds. A name bound nowhere raises NameError. (The builtins come last in
  Python; the two names looked up below, \<open>tempfile\<close> and \<open>unit\<close>, are not among them.)
\<close>

datatype pyval = PNone | PStr string | PObject

fun lookup_name :: "(string \<times> pyval) list \<Rightarrow> string \<Rightarrow> error + pyval" where
  "lookup_name scope n = (case map_of scope n of None \<Rightarrow> Inl NameError | Some v \<Rightarrow> Inr v)"

section \<open>The Creator hook (plugins/hooks/zoho\_creator.py)\<close>

definition report_creator :: string where
  "report_creator = ''username_of_report_creator''"

text \<open>The names that the module's imports, assignment and class statement bind.\<close>

definition creator_module :: "(string \<times> pyval) list" where
  "creator_module =
     [(''io'', PObject), (''json'', PObject), (''time'', PObject), (''zipfile'', PObject),
      (''datetime'', PObject), (''pd'', PObject), (''requests'', PObject),
      (''BaseHook'', PObject), (''json_normalize'', PObject),
      (''report_creator'', PStr report_creator),
      (''ZohoCreatorHook'', PObject)]"

record creator_token =
  token :: json
  created_at :: datetime

record creator_hook =
  conn_id :: string
  endpoint :: string
  bulk_endpoint :: string
  token_cache :: creator_token

text \<open>\<open>datetime(2019, 1, 1, 0, 0, 0, 0)\<close>\<close>

definition init_datetime :: datetime where
  "init_datetime = seconds 1546300800"

text \<open>\<open>__init__(self, conn_id)\<close>: one required argument besides \<open>self\<close>.\<close>

definition ZohoCreatorHook :: "string list \<Rightarrow> error + creator_hook" where
  "ZohoCreatorHook args =
     (case bind_positional 1 0 args of
        Inl e \<Rightarrow> Inl e
      | Inr bound \<Rightarrow>
          Inr \<lparr>conn_id = hd bound,
               endpoint = ''https://creator.zoho.eu/api/v2/'',
               bulk_endpoint = ''https://creator.zoho.eu/api/bulk/v2'',
               token_cache = \<lparr>token = JNull, created_at = init_datetime\<rparr>\<rparr>)"

text \<open>\<open>get_conn\<close>: Airflow raises when no connection has the id.\<close>

definition get_conn :: "string \<Rightarrow> world \<Rightarrow> error + connection" where
  "get_conn cid w = (case connections w cid of None \<Rightarrow> Inl AirflowNotFound | Some c \<Rightarrow> Inr c)"

definition token_request :: "json \<Rightarrow> connection \<Rightarrow> request" where
  "token_request refresh c =
     \<lparr>verb = POST,
      url = [Lit ''https://accounts.zoho.eu/oauth/v2/token''],
      params = [(''refresh_token'', Val refresh), (''client_secret'', Val (JStr (password c))),
                (''grant_type'', Val (JStr ''refresh_token'')),
                (''client_id'', Val (JStr (login c)))],
      headers = [],
      payload = JNull,
      files = JNull,
      stream = False\<rparr>"

definition creator_get_token ::
  "creator_hook \<Rightarrow> world \<Rightarrow> (error + creator_token) \<times> creator_hook \<times> world" where
  "creator_get_token h w =
     (let (now, w1) = utcnow w in
      if now - created_at (token_cache h) \<le> seconds 3600 then (Inr (token_cache h), h, w1)
      else
        (case get_conn (conn_id h) w1 of
           Inl e \<Rightarrow> (Inl e, h, w1)
         | Inr c \<Rightarrow>
             (case json_item (extra c) ''refresh_token'' of
                Inl e \<Rightarrow> (Inl e, h, w1)
              | Inr refresh \<Rightarrow>
                  (let (r, w2) = http (token_request refresh c) w1 in
                   case response_json r of
                     Inl e \<Rightarrow> (Inl e, h, w2)
                   | Inr new_token \<Rightarrow>
                       (case json_item new_token ''access_token'' of
                          Inl e \<Rightarrow> (Inl e, h, w2)
                        | Inr access \<Rightarrow>
                            (let (now2, w3) = utcnow w2;
                                 h' = h\<lparr>token_cache := \<lparr>token = access, created_at = now2\<rparr>\<rparr>
                             in (Inr (token_cache h'), h', w3)))))))"

text \<open>\<open>get_headers(self)\<close> takes no argument besides \<open>self\<close>.\<close>

definition creator_get_headers ::
  "json list \<Rightarrow> creator_hook \<Rightarrow> world
     \<Rightarrow> (error + (string \<times> fstring) list) \<times> creator_hook \<times> world" where
  "creator_get_headers args h w =
     (case bind_positional 0 0 args of
        Inl e \<Rightarrow> (Inl e, h, w)
      | Inr _ \<Rightarrow>
          (case creator_get_token h w of
             (Inl e, h', w') \<Rightarrow> (Inl e, h', w')
           | (Inr t, h', w') \<Rightarrow>
               (Inr [(''Authorization'', [Lit ''Zoho-oauthtoken '', Fmt (token t)])], h', w')))"

record job =
  job_url :: string
  job_id :: json
  job_cursor :: json

definition bulk_url :: "creator_hook \<Rightarrow> string \<Rightarrow> string \<Rightarrow> string" where
  "bulk_url h app_name view_name =
     bulk_endpoint h @ ''/'' @ report_creator @ ''/'' @ app_name @ ''/report/'' @ view_name
       @ ''/read''"

definition bulk_query :: "json \<Rightarrow> (string \<times> json) list" where
  "bulk_query cursor =
     (if truthy cursor then [(''max_records'', JInt 200000), (''record_cursor'', cursor)]
      else [(''max_records'', JInt 200000)])"

definition create_bulk_api_read_job ::
  "string \<Rightarrow> string \<Rightarrow> json \<Rightarrow> creator_hook \<Rightarrow> world
     \<Rightarrow> (error + job) \<times> creator_hook \<times> world" where
  "create_bulk_api_read_job app_name view_name cursor h w =
     (case creator_get_headers [] h w of
        (Inl e, h1, w1) \<Rightarrow> (Inl e, h1, w1)
      | (Inr hs, h1, w1) \<Rightarrow>
          (let (r, w2) =
                 http \<lparr>verb = POST, url = [Lit (bulk_url h app_name view_name)], params = [],
                       headers = hs, payload = JObj [(''query'', JObj (bulk_query cursor))],
                       files = JNull, stream = False\<rparr> w1
           in case raise_for_status r of
                Inl e \<Rightarrow> (Inl e, h1, w2)
              | Inr _ \<Rightarrow>
                  (case response_json r of
                     Inl e \<Rightarrow> (Inl e, h1, w2)
                   | Inr j \<Rightarrow>
                       (case json_get j ''details'' of
                          Inl e \<Rightarrow> (Inl e, h1, w2)
                        | Inr details \<Rightarrow>
                            (case json_get details ''id'' of
                               Inl e \<Rightarrow> (Inl e, h1, w2)
                             | Inr i \<Rightarrow>
                                 (Inr \<lparr>job_url = bulk_url h app_name view_name, job_id = i,
                                       job_cursor = cursor\<rparr>, h1, w2))))))"

text \<open>
  \<open>check_bulk_job\<close> evaluates the arguments of \<open>requests.get\<close> first: the URL, then
  \<open>self.get_headers(job.get("cursor"))\<close>, a call with one positional argument.
\<close>

definition check_bulk_job ::
  "job \<Rightarrow> creator_hook \<Rightarrow> world \<Rightarrow> (error + json) \<times> creator_hook \<times> world" where
  "check_bulk_job j h w =
     (case creator_get_headers [job_cursor j] h w of
        (Inl e, h1, w1) \<Rightarrow> (Inl e, h1, w1)
      | (Inr hs, h1, w1) \<Rightarrow>
          (let (r, w2) =
                 http \<lparr>verb = GET, url = [Lit (job_url j), Lit ''/'', Fmt (job_id j)],
                       params = [], headers = hs, payload = JNull, files = JNull,
                       stream = False\<rparr> w1
           in case response_json r of
                Inl e \<Rightarrow> (Inl e, h1, w2)
              | Inr status \<Rightarrow> (Inr status, h1, w2)))"

text \<open>
  A DataFrame is the list of its rows. \<open>append\<close> puts the rows of the second frame
  after those of the first; \<open>drop_duplicates\<close> keeps the first occurrence of every row,
  in order.
\<close>

type_synonym dataframe = "string list list"

fun drop_duplicates_from :: "'a list \<Rightarrow> 'a list \<Rightarrow> 'a list" where
  "drop_duplicates_from seen [] = []"
| "drop_duplicates_from seen (x # xs) =
     (if x \<in> set seen then drop_duplicates_from seen xs
      else x # drop_duplicates_from (x # seen) xs)"

definition drop_duplicates :: "'a list \<Rightarrow> 'a list" where
  "drop_duplicates xs = drop_duplicates_from [] xs"

text \<open>
  The libraries the hook calls: \<open>zipfile.ZipFile\<close> gives the archive's members (name
  and data) or fails on bytes that are no archive, and \<open>pd.read_csv\<close> parses the data
  of a file.
\<close>

record library =
  unzip :: "string \<Rightarrow> (string \<times> string) list option"
  read_csv :: "string \<Rightarrow> error + dataframe"

text \<open>
  \<open>extract_zip_file_as_df\<close> is a static method; its first statement reads the name
  \<open>tempfile\<close>, which is looked up among the locals and the module's names.
\<close>

definition extract_zip_file_as_df :: "library \<Rightarrow> string \<Rightarrow> error + dataframe" where
  "extract_zip_file_as_df lib databytes =
     (case lookup_name ((''databytes'', PObject) # creator_module) ''tempfile'' of
        Inl e \<Rightarrow> Inl e
      | Inr _ \<Rightarrow>
          (case unzip lib databytes of
             None \<Rightarrow> Inl BadZipFile
           | Some filelist \<Rightarrow>
               (case filelist of
                  [] \<Rightarrow> Inl IndexError
                | (filename, data) # _ \<Rightarrow> read_csv lib data)))"

definition download_data ::
  "json \<Rightarrow> creator_hook \<Rightarrow> world \<Rightarrow> (error + response) \<times> creator_hook \<times> world" where
  "download_data download_url h w =
     (case creator_get_headers [] h w of
        (Inl e, h1, w1) \<Rightarrow> (Inl e, h1, w1)
      | (Inr hs, h1, w1) \<Rightarrow>
          (let (r, w2) =
                 http \<lparr>verb = GET, url = [Lit ''https://creator.zoho.eu'', Fmt download_url],
                       params = [], headers = hs, payload = JNull, files = JNull,
                       stream = True\<rparr> w1
           in case raise_for_status r of
                Inl e \<Rightarrow> (Inl e, h1, w2)
              | Inr _ \<Rightarrow> (Inr r, h1, w2)))"

record page =
  df :: dataframe
  cursor :: json

text \<open>
  The branch of \<open>download_workflow\<close> taken when the status is "Completed". The dict
  that is returned evaluates the frame before the cursor.
\<close>

definition download_completed ::
  "library \<Rightarrow> json \<Rightarrow> creator_hook \<Rightarrow> world
     \<Rightarrow> (error + page) \<times> creator_hook \<times> world" where
  "download_completed lib status h w =
     (case json_get status ''details.result'' of
        Inl e \<Rightarrow> (Inl e, h, w)
      | Inr result \<Rightarrow>
          (case json_get result ''download_url'' of
             Inl e \<Rightarrow> (Inl e, h, w)
           | Inr download_url \<Rightarrow>
               (case download_data download_url h w of
                  (Inl e, h1, w1) \<Rightarrow> (Inl e, h1, w1)
                | (Inr r, h1, w1) \<Rightarrow>
                    (case extract_zip_file_as_df lib (content r) of
                       Inl e \<Rightarrow> (Inl e, h1, w1)
                     | Inr frame \<Rightarrow>
                         (case json_get result ''record_cursor'' of
                            Inl e \<Rightarrow> (Inl e, h1, w1)
                          | Inr c \<Rightarrow> (Inr \<lparr>df = frame, cursor = c\<rparr>, h1, w1))))))"

text \<open>
  The loop of \<open>download_workflow\<close>, from its test on. It may poll for ever, so the
  result is an option: None stands for a run that does not return. A loop left
  because the test fails returns Python's None, the inner \<open>None\<close> here.
\<close>

partial_function (option) poll_status ::
  "library \<Rightarrow> job \<Rightarrow> json \<Rightarrow> creator_hook \<Rightarrow> world
     \<Rightarrow> ((error + page option) \<times> creator_hook \<times> world) option" where
  "poll_status lib j status h w =
     (case json_get status ''details.status'' of
        Inl e \<Rightarrow> Some (Inl e, h, w)
      | Inr st \<Rightarrow>
          if \<not> truthy st then Some (Inr None, h, w)
          else if st = JStr ''Completed'' then
            (case download_completed lib status h w of
               (Inl e, h1, w1) \<Rightarrow> Some (Inl e, h1, w1)
             | (Inr p, h1, w1) \<Rightarrow> Some (Inr (Some p), h1, w1))
          else
            (case check_bulk_job j h (sleep 30 w) of
               (Inl e, h1, w1) \<Rightarrow> Some (Inl e, h1, w1)
             | (Inr status', h1, w1) \<Rightarrow> poll_status lib j status' h1 w1))"

definition download_workflow ::
  "library \<Rightarrow> job \<Rightarrow> creator_hook \<Rightarrow> world
     \<Rightarrow> ((error + page option) \<times> creator_hook \<times> world) option" where
  "download_workflow lib j h w =
     (case check_bulk_job j h w of
        (Inl e, h1, w1) \<Rightarrow> Some (Inl e, h1, w1)
      | (Inr status, h1, w1) \<Rightarrow> poll_status lib j status h1 w1)"

section \<open>The Creator operator (plugins/operators/zoho\_creator.py)\<close>

record operator =
  bucket_name :: string
  table_name :: string
  view_name :: string
  app_name :: string
  dataset :: string
  creator_hook_attr :: "creator_hook option"

text \<open>
  The property \<open>creator_hook\<close>: when the attribute is None it is set to
  \<open>ZohoCreatorHook()\<close>, a call with no argument.
\<close>

definition creator_hook :: "operator \<Rightarrow> (error + creator_hook) \<times> operator" where
  "creator_hook op =
     (case creator_hook_attr op of
        Some h \<Rightarrow> (Inr h, op)
      | None \<Rightarrow>
          (case ZohoCreatorHook [] of
             Inl e \<Rightarrow> (Inl e, op)
           | Inr h \<Rightarrow> (Inr h, op\<lparr>creator_hook_attr := Some h\<rparr>)))"

text \<open>
  The loop of \<open>download_bulk_data\<close>, from its test on. Every method call goes through
  the property and leaves the hook it changed in the operator.
\<close>

partial_function (option) download_pages ::
  "library \<Rightarrow> job \<Rightarrow> dataframe \<Rightarrow> json \<Rightarrow> operator \<Rightarrow> world
     \<Rightarrow> ((error + dataframe) \<times> operator \<times> world) option" where
  "download_pages lib j collector c op w =
     (if \<not> truthy c then Some (Inr (drop_duplicates collector), op, w)
      else
        (case creator_hook op of
           (Inl e, op1) \<Rightarrow> Some (Inl e, op1, w)
         | (Inr h, op1) \<Rightarrow>
             Option.bind (download_workflow lib j h w)
               (\<lambda>(res, h1, w1).
                  case res of
                    Inl e \<Rightarrow> Some (Inl e, op1\<lparr>creator_hook_attr := Some h1\<rparr>, w1)
                  | Inr None \<Rightarrow>
                      Some (Inl AttributeError, op1\<lparr>creator_hook_attr := Some h1\<rparr>, w1)
                  | Inr (Some data) \<Rightarrow>
                      (case create_bulk_api_read_job (app_name op) (view_name op)
                              (cursor data) h1 w1 of
                         (Inl e, h2, w2) \<Rightarrow>
                           Some (Inl e, op1\<lparr>creator_hook_attr := Some h2\<rparr>, w2)
                       | (Inr j', h2, w2) \<Rightarrow>
                           download_pages lib j' (collector @ df data) (cursor data)
                             (op1\<lparr>creator_hook_attr := Some h2\<rparr>) w2))))"

definition download_bulk_data ::
  "library \<Rightarrow> operator \<Rightarrow> world \<Rightarrow> ((error + dataframe) \<times> operator \<times> world) option" where
  "download_bulk_data lib op w =
     (case creator_hook op of
        (Inl e, op1) \<Rightarrow> Some (Inl e, op1, w)
      | (Inr h, op1) \<Rightarrow>
          (case create_bulk_api_read_job (app_name op) (view_name op) JNull h w of
             (Inl e, h1, w1) \<Rightarrow> Some (Inl e, op1\<lparr>creator_hook_attr := Some h1\<rparr>, w1)
           | (Inr j, h1, w1) \<Rightarrow>
               download_pages lib j [] (JStr ''init'')
                 (op1\<lparr>creator_hook_attr := Some h1\<rparr>) w1))"

section \<open>The Inventory hook (plugins/hooks/zoho\_inventory.py)\<close>

text \<open>
  The functions are modelled as they are written, each from the point where it is
  called. (The file as it stands does not compile: the docstring of
  \<open>contact_persons\<close> is indented less than the body it opens, and the decorator of
  \<open>make_request\<close> hands its logging callback the names \<open>logger\<close> and \<open>logging\<close>,
  which nothing binds.)
\<close>

definition inventory_module :: "(string \<times> pyval) list" where
  "inventory_module =
     [(''datetime'', PObject), (''timedelta'', PObject), (''Optional'', PObject),
      (''requests'', PObject), (''BaseHook'', PObject), (''after_log'', PObject),
      (''retry'', PObject), (''stop_after_attempt'', PObject), (''wait_fixed'', PObject),
      (''query_bigquery'', PObject), (''get_sql_filepath'', PObject),
      (''ENTITY_MODE_ID_REQ'', PObject), (''ZOHO_API_METHODS'', PObject),
      (''ZohoInventoryHook'', PObject)]"



definition ZOHO_API_METHODS :: "string list" where
  "ZOHO_API_METHODS =
     [''compositeitems'', ''creditnotes'', ''contacts'', ''inventoryadjustments'',
      ''itemdetails'', ''invoices'', ''items'', ''purchaseorders'', ''salesorders'',
      ''pricebooks'']"

record inventory_token =
  token_value :: json
  expires_at :: stamp

record inventory_hook =
  inv_endpoint :: string
  inv_conn_id :: string
  inv_token :: inventory_token

definition ZohoInventoryHook :: "string \<Rightarrow> inventory_hook" where
  "ZohoInventoryHook cid =
     \<lparr>inv_endpoint = ''https://inventory.zoho.eu/api/v1/'',
      inv_conn_id = cid,
      inv_token = \<lparr>token_value = JNull, expires_at = Datetime init_datetime\<rparr>\<rparr>"




text \<open>\<open>str\<close> of an optional string, as an f-string formats it.\<close>

fun str_opt :: "string option \<Rightarrow> string" where
  "str_opt None = ''None''"
| "str_opt (Some s) = s"

fun pyval_of :: "string option \<Rightarrow> pyval" where
  "pyval_of None = PNone"
| "pyval_of (Some s) = PStr s"

text \<open>
  \<open>get_url(self, method, uuid=None)\<close>. The body tests the name \<open>unit\<close>, which is
  looked up among the locals (\<open>self\<close>, \<open>method\<close>, \<open>uuid\<close>) and the module's names.
\<close>

definition get_url :: "inventory_hook \<Rightarrow> string \<Rightarrow> string option \<Rightarrow> error + string" where
  "get_url h method uuid =
     (case lookup_name
             ([(''self'', PObject), (''method'', PStr method), (''uuid'', pyval_of uuid)]
                @ inventory_module) ''unit'' of
        Inl e \<Rightarrow> Inl e
      | Inr unit \<Rightarrow>
          if unit \<noteq> PNone then
            (if method = ''salesorder_lineitems''
               then Inr (inv_endpoint h @ ''salesorders/'' @ str_opt uuid)
             else if method = ''invoice_lineitems''
               then Inr (inv_endpoint h @ ''invoices/'' @ str_opt uuid)
             else if method = ''creditnote_lineitems''
               then Inr (inv_endpoint h @ ''creditnotes/'' @ str_opt uuid)
             else if method = ''contact_lineitems''
               then Inr (inv_endpoint h @ ''contacts/'' @ str_opt uuid)
             else if method = ''contact_persons''
               then Inr (inv_endpoint h @ ''contacts/'' @ str_opt uuid @ ''/contact_persons'')
             else if method = ''inventory_adjustments_lineitems''
               then Inr (inv_endpoint h @ ''inventoryadjustments/'' @ str_opt uuid)
             else if method = ''bundles''
               then Inr (inv_endpoint h @ ''compositeitems/'' @ str_opt uuid)
             else Inl ValueError)
          else if method \<in> set ZOHO_API_METHODS then Inr (inv_endpoint h @ method)
          else Inl ValueError)"

text \<open>
  A call of \<open>get_url\<close> with keyword arguments, as \<open>make_request\<close> makes it:
  \<open>self.get_url(method=method, unit=unit)\<close>.
\<close>

definition get_url_keywords ::
  "inventory_hook \<Rightarrow> (string \<times> pyval) list \<Rightarrow> error + string" where
  "get_url_keywords h kws =
     (case bind_keywords [''method'', ''uuid''] kws of
        Inl e \<Rightarrow> Inl e
      | Inr bound \<Rightarrow>
          (case map_of bound ''method'' of
             Some (PStr m) \<Rightarrow>
               get_url h m (case map_of bound ''uuid'' of Some (PStr u) \<Rightarrow> Some u | _ \<Rightarrow> None)
           | _ \<Rightarrow> Inl TypeError))"












section \<open>Example inputs\<close>

text \<open>
  Concrete hooks and worlds on which the theorems below are instantiated. The clock
  of \<open>example_world\<close> reads 5000 seconds and one second more at every reading.
\<close>

definition example_library :: library where
  "example_library = \<lparr>unzip = (\<lambda>b. Some [(''report.csv'', b)]), read_csv = (\<lambda>d. Inr [[d]])\<rparr>"

definition example_connection :: connection where
  "example_connection =
     \<lparr>login = ''client'', password = ''secret'',
      extra = JObj [(''refresh_token'', JStr ''refresh'')]\<rparr>"

definition example_creator_hook :: creator_hook where
  "example_creator_hook =
     \<lparr>conn_id = ''zoho_creator'',
      endpoint = ''https://creator.zoho.eu/api/v2/'',
      bulk_endpoint = ''https://creator.zoho.eu/api/bulk/v2'',
      token_cache = \<lparr>token = JStr ''cached'', created_at = seconds 4000\<rparr>\<rparr>"

definition example_job :: job where
  "example_job =
     \<lparr>job_url = ''https://creator.zoho.eu/api/bulk/v2/username_of_report_creator/app/report/view/read'',
      job_id = JStr ''2000000018003'', job_cursor = JNull\<rparr>"

definition completed_status :: json where
  "completed_status =
     JObj [(''details.status'', JStr ''Completed''),
           (''details.result'',
            JObj [(''download_url'', JStr ''/api/bulk/v2/result''), (''record_cursor'', JNull)])]"

definition example_world :: "(nat \<Rightarrow> response) \<Rightarrow> world" where
  "example_world answers =
     \<lparr>clock = (\<lambda>n. seconds (5000 + int n)),
      ticks = 0,
      connections = (\<lambda>c. if c = ''zoho_creator'' then Some example_connection else None),
      server = answers,
      warehouse =
        (\<lambda>n. Inr \<lparr>exported_value = JStr ''fresh'',
                     exported_expiry = ''1970-01-01 03:00:00.000000'',
                     exported_parsed = Some (seconds 10800)\<rparr>),
      trace = []\<rparr>"

definition example_operator :: operator where
  "example_operator =
     \<lparr>bucket_name = ''bucket'', table_name = ''table'', view_name = ''view'', app_name = ''app'',
      dataset = ''dataset'', creator_hook_attr = None\<rparr>"



definition job_response :: response where
  "job_response =
     \<lparr>status_code = 200,
      body = Some (JObj [(''code'', JInt 3000),
                         (''details'', JObj [(''id'', JStr ''2000000018003'')])]),
      content = []\<rparr>"




section \<open>Properties\<close>

subsection \<open>The status check of a bulk job\<close>

lemma creator_get_headers_argument:
  "creator_get_headers (a # args) h w = (Inl TypeError, h, w)"
  by (simp add: creator_get_headers_def bind_positional_def)

lemma check_bulk_job_raises: "check_bulk_job j h w = (Inl TypeError, h, w)"
  by (simp add: check_bulk_job_def creator_get_headers_argument)

lemma download_workflow_raises: "download_workflow lib j h w = Some (Inl TypeError, h, w)"
  by (simp add: download_workflow_def check_bulk_job_raises)

text \<open>
  C8: every call of \<open>check_bulk_job\<close> raises TypeError with the hook and the world as
  they were, so before any request is sent: it passes the job's cursor to
  \<open>get_headers\<close>, which takes no argument. \<open>download_workflow\<close> starts with that call,
  so it raises the same error and never comes to its download step.
\<close>

theorem check_bulk_job_type_error:
  "check_bulk_job j h w = (Inl TypeError, h, w)
   \<and> trace (snd (snd (check_bulk_job j h w))) = trace w
   \<and> download_workflow lib j h w = Some (Inl TypeError, h, w)"
  by (simp add: check_bulk_job_raises download_workflow_raises)

text \<open>
  C1: on a job whose status the server would report as completed at the first poll,
  \<open>download_workflow\<close> raises TypeError and has sent nothing: no poll, no sleep, no
  download.
\<close>

theorem download_workflow_completed_job:
  "download_workflow example_library example_job example_creator_hook
     (example_world (\<lambda>n. \<lparr>status_code = 200, body = Some completed_status, content = ''zip''\<rparr>))
   = Some (Inl TypeError, example_creator_hook,
       example_world (\<lambda>n. \<lparr>status_code = 200, body = Some completed_status, content = ''zip''\<rparr>))
   \<and> trace (example_world (\<lambda>n. \<lparr>status_code = 200, body = Some completed_status, content = ''zip''\<rparr>))
       = []"
  by (simp add: download_workflow_raises example_world_def)

subsection \<open>Decompression\<close>

lemma extract_zip_file_as_df_raises: "extract_zip_file_as_df lib databytes = Inl NameError"
  by (simp add: extract_zip_file_as_df_def creator_module_def)

text \<open>
  C7: on bytes that the library unpacks to one CSV file, \<open>extract_zip_file_as_df\<close>
  raises NameError: the module does not import \<open>tempfile\<close>.
\<close>

theorem extract_zip_file_as_df_name_error:
  "unzip example_library ''PK'' = Some [(''report.csv'', ''PK'')]
   \<and> extract_zip_file_as_df example_library ''PK'' = Inl NameError"
  by (simp add: extract_zip_file_as_df_raises example_library_def)

subsection \<open>The pages of a bulk download\<close>

lemma creator_hook_unset:
  "creator_hook (op\<lparr>creator_hook_attr := None\<rparr>)
     = (Inl TypeError, op\<lparr>creator_hook_attr := None\<rparr>)"
  by (simp add: creator_hook_def ZohoCreatorHook_def bind_positional_def)

lemma download_pages_raises:
  "truthy c \<Longrightarrow> \<exists>e op' w'. download_pages lib j collector c op w = Some (Inl e, op', w')"
  by (subst download_pages.simps)
     (simp add: download_workflow_raises split: prod.splits sum.splits)

text \<open>
  C2: on an operator as its constructor leaves it, \<open>download_bulk_data\<close> raises
  TypeError at its first statement, with nothing sent: the property \<open>creator_hook\<close>
  calls \<open>ZohoCreatorHook()\<close> without the connection id that the constructor requires.
\<close>

theorem download_bulk_data_unset_hook:
  "download_bulk_data lib (op\<lparr>creator_hook_attr := None\<rparr>) w
     = Some (Inl TypeError, op\<lparr>creator_hook_attr := None\<rparr>, w)"
  by (simp add: download_bulk_data_def creator_hook_unset)

text \<open>
  C10: \<open>download_bulk_data\<close> returns no frame on any operator in any world, also when
  a hook has been put into the operator by hand: every run ends in an exception.
\<close>

theorem download_bulk_data_returns_no_frame:
  "\<exists>e op' w'. download_bulk_data lib op w = Some (Inl e, op', w')"
proof -
  have loop: "\<exists>e op' w'. download_pages lib j [] (JStr ''init'') op1 w1 = Some (Inl e, op', w')"
    for j op1 w1
    by (rule download_pages_raises) simp
  show ?thesis
    unfolding download_bulk_data_def
    using loop by (auto split: prod.splits sum.splits)
qed

text \<open>The last step of \<open>download_bulk_data\<close> by itself does what its name says.\<close>

lemma drop_duplicates_from_set:
  "set (drop_duplicates_from seen xs) = set xs - set seen"
  by (induction xs arbitrary: seen) auto

lemma drop_duplicates_from_distinct: "distinct (drop_duplicates_from seen xs)"
  by (induction xs arbitrary: seen) (auto simp: drop_duplicates_from_set)

lemma drop_duplicates_distinct: "distinct (drop_duplicates xs)"
  by (simp add: drop_duplicates_def drop_duplicates_from_distinct)

lemma drop_duplicates_set: "set (drop_duplicates xs) = set xs"
  by (simp add: drop_duplicates_def drop_duplicates_from_set)

lemma drop_duplicates_from_seen:
  "set ys \<subseteq> set seen \<Longrightarrow> drop_duplicates_from seen ys = []"
  by (induction ys) auto

lemma drop_duplicates_from_append:
  "set ys \<subseteq> set seen \<union> set xs
     \<Longrightarrow> drop_duplicates_from seen (xs @ ys) = drop_duplicates_from seen xs"
proof (induction xs arbitrary: seen)
  case Nil
  then show ?case by (simp add: drop_duplicates_from_seen)
next
  case (Cons x xs)
  then show ?case by auto
qed

lemma drop_duplicates_collected_page:
  "set ys \<subseteq> set xs \<Longrightarrow> drop_duplicates (xs @ ys) = drop_duplicates xs"
  by (simp add: drop_duplicates_def drop_duplicates_from_append)

subsection \<open>The URL of an Inventory method\<close>

lemma get_url_raises: "get_url h method uuid = Inl NameError"
  by (simp add: get_url_def inventory_module_def)

lemma get_url_keywords_raises:
  "get_url_keywords h [(''method'', PStr method), (''unit'', pyval_of unit)] = Inl TypeError"
  by (simp add: get_url_keywords_def bind_keywords_def)

text \<open>
  C5: \<open>get_url\<close> raises NameError for a method of the fixed list without an id and for
  a line-item method with an id alike: its body tests the name \<open>unit\<close>, while its
  parameter is called \<open>uuid\<close>.
\<close>

theorem get_url_name_error:
  "''invoices'' \<in> set ZOHO_API_METHODS
   \<and> get_url (ZohoInventoryHook ''zoho_inventory_oauth'') ''invoices'' None = Inl NameError
   \<and> get_url (ZohoInventoryHook ''zoho_inventory_oauth'') ''invoice_lineitems'' (Some ''42'')
       = Inl NameError"
  by (simp add: get_url_raises ZOHO_API_METHODS_def)

subsection \<open>The bearer token\<close>









subsection \<open>The bulk read job\<close>

lemma bulk_query_max_records: "map_of (bulk_query c) ''max_records'' = Some (JInt 200000)"
  by (simp add: bulk_query_def)

lemma bulk_query_record_cursor:
  "map_of (bulk_query c) ''record_cursor'' = (if truthy c then Some c else None)"
  by (simp add: bulk_query_def)

lemma create_bulk_api_read_job_request:
  assumes "creator_get_headers [] h w = (Inr hs, h1, w1)"
  shows "\<exists>res. create_bulk_api_read_job app view c h w =
     (res, h1,
      w1\<lparr>trace := trace w1 @
         [Request \<lparr>verb = POST, url = [Lit (bulk_url h app view)], params = [], headers = hs,
                   payload = JObj [(''query'', JObj (bulk_query c))], files = JNull,
                   stream = False\<rparr>]\<rparr>)"
  using assms
  by (simp add: create_bulk_api_read_job_def http_def split: sum.splits)

lemma create_bulk_api_read_job_result:
  assumes "creator_get_headers [] h w = (Inr hs, h1, w1)"
    and "\<not> (400 \<le> status_code (server w1 (requests_sent w1))
             \<and> status_code (server w1 (requests_sent w1)) < 600)"
    and "body (server w1 (requests_sent w1)) = Some j"
    and "json_get j ''details'' = Inr details"
    and "json_get details ''id'' = Inr i"
  shows "fst (create_bulk_api_read_job app view c h w) =
     Inr \<lparr>job_url = bulk_url h app view, job_id = i, job_cursor = c\<rparr>"
  using assms
  by (simp add: create_bulk_api_read_job_def http_def raise_for_status_def response_json_def)

text \<open>
  C6: the query of \<open>create_bulk_api_read_job\<close> asks for max\_records 200000 and holds
  the key record\_cursor, with the cursor as its value, exactly when the cursor is
  true (not None, not empty). Once the headers are there the job is posted to the
  bulk URL with that query, and when the response is no HTTP error and its body has
  details with an id, the job returned carries the bulk URL, that id and the cursor.
\<close>

theorem create_bulk_api_read_job_query:
  "map_of (bulk_query c) ''max_records'' = Some (JInt 200000)
   \<and> map_of (bulk_query c) ''record_cursor'' = (if truthy c then Some c else None)
   \<and> (creator_get_headers [] h w = (Inr hs, h1, w1) \<longrightarrow>
        (\<exists>res. create_bulk_api_read_job app view c h w =
           (res, h1,
            w1\<lparr>trace := trace w1 @
               [Request \<lparr>verb = POST, url = [Lit (bulk_url h app view)], params = [],
                         headers = hs, payload = JObj [(''query'', JObj (bulk_query c))],
                         files = JNull, stream = False\<rparr>]\<rparr>))
        \<and> (\<not> (400 \<le> status_code (server w1 (requests_sent w1))
                 \<and> status_code (server w1 (requests_sent w1)) < 600)
             \<and> body (server w1 (requests_sent w1)) = Some j
             \<and> json_get j ''details'' = Inr details
             \<and> json_get details ''id'' = Inr i \<longrightarrow>
            fst (create_bulk_api_read_job app view c h w) =
              Inr \<lparr>job_url = bulk_url h app view, job_id = i, job_cursor = c\<rparr>))"
  using bulk_query_max_records [of c] bulk_query_record_cursor [of c]
    create_bulk_api_read_job_request [of h w hs h1 w1 app view c]
    create_bulk_api_read_job_result [of h w hs h1 w1 j details i app view c]
  by blast

lemma example_creator_headers:
  "creator_get_headers [] example_creator_hook (example_world answers) =
     (Inr [(''Authorization'', [Lit ''Zoho-oauthtoken '', Fmt (JStr ''cached'')])],
      example_creator_hook, (example_world answers)\<lparr>ticks := 1\<rparr>)"
  by (simp add: creator_get_headers_def bind_positional_def creator_get_token_def utcnow_def
      example_creator_hook_def example_world_def seconds_def)

theorem create_bulk_api_read_job_query_witness:
  "create_bulk_api_read_job ''app'' ''view'' (JStr ''1700000000000'') example_creator_hook
      (example_world (\<lambda>n. job_response))
     = (Inr \<lparr>job_url = ''https://creator.zoho.eu/api/bulk/v2/username_of_report_creator/app/report/view/read'',
             job_id = JStr ''2000000018003'', job_cursor = JStr ''1700000000000''\<rparr>,
        example_creator_hook,
        (example_world (\<lambda>n. job_response))
          \<lparr>ticks := 1,
            trace :=
              [Request
                \<lparr>verb = POST,
                  url = [Lit ''https://creator.zoho.eu/api/bulk/v2/username_of_report_creator/app/report/view/read''],
                  params = [],
                  headers = [(''Authorization'', [Lit ''Zoho-oauthtoken '', Fmt (JStr ''cached'')])],
                  payload = JObj [(''query'', JObj [(''max_records'', JInt 200000),
                                                    (''record_cursor'', JStr ''1700000000000'')])],
                  files = JNull, stream = False\<rparr>]\<rparr>)
   \<and> map_of (bulk_query JNull) ''record_cursor'' = None
   \<and> map_of (bulk_query (JStr [])) ''record_cursor'' = None"
proof -
  let ?w = "example_world (\<lambda>n. job_response)"
  let ?w1 = "?w\<lparr>ticks := 1\<rparr>"
  have s: "trace ?w = []"
    by (simp add: example_world_def)
  have u: "bulk_url example_creator_hook ''app'' ''view'' =
      ''https://creator.zoho.eu/api/bulk/v2/username_of_report_creator/app/report/view/read''"
    by (simp add: bulk_url_def example_creator_hook_def report_creator_def)
  have q: "bulk_query (JStr ''1700000000000'') =
      [(''max_records'', JInt 200000), (''record_cursor'', JStr ''1700000000000'')]"
    by (simp add: bulk_query_def)
  let ?hs = "[(''Authorization'', [Lit ''Zoho-oauthtoken '', Fmt (JStr ''cached'')])]"
  let ?j = "JObj [(''code'', JInt 3000), (''details'', JObj [(''id'', JStr ''2000000018003'')])]"
  note t = create_bulk_api_read_job_query
      [of "JStr ''1700000000000''" example_creator_hook ?w ?hs example_creator_hook ?w1
          "''app''" "''view''" ?j "JObj [(''id'', JStr ''2000000018003'')]"
          "JStr ''2000000018003''"]
  have hd: "creator_get_headers [] example_creator_hook ?w = (Inr ?hs, example_creator_hook, ?w1)"
    by (rule example_creator_headers)
  have pre: "\<not> (400 \<le> status_code (server ?w1 (requests_sent ?w1))
                \<and> status_code (server ?w1 (requests_sent ?w1)) < 600)
      \<and> body (server ?w1 (requests_sent ?w1)) = Some ?j
      \<and> json_get ?j ''details'' = Inr (JObj [(''id'', JStr ''2000000018003'')])
      \<and> json_get (JObj [(''id'', JStr ''2000000018003'')]) ''id'' = Inr (JStr ''2000000018003'')"
    by (simp add: example_world_def requests_sent_def job_response_def)
  from t hd obtain res where
    r: "create_bulk_api_read_job ''app'' ''view'' (JStr ''1700000000000'') example_creator_hook ?w =
         (res, example_creator_hook,
          ?w1\<lparr>trace := trace ?w1 @
             [Request \<lparr>verb = POST, url = [Lit (bulk_url example_creator_hook ''app'' ''view'')],
                       params = [], headers = ?hs,
                       payload = JObj [(''query'', JObj (bulk_query (JStr ''1700000000000'')))],
                       files = JNull, stream = False\<rparr>]\<rparr>)"
    by blast
  from t hd pre have
    f: "fst (create_bulk_api_read_job ''app'' ''view'' (JStr ''1700000000000'') example_creator_hook ?w)
         = Inr \<lparr>job_url = bulk_url example_creator_hook ''app'' ''view'',
                job_id = JStr ''2000000018003'', job_cursor = JStr ''1700000000000''\<rparr>"
    by blast
  have n1: "map_of (bulk_query JNull) ''record_cursor'' = None"
    using conjunct1 [OF conjunct2 [OF create_bulk_api_read_job_query [of JNull]]] by simp
  have n2: "map_of (bulk_query (JStr [])) ''record_cursor'' = None"
    using conjunct1 [OF conjunct2 [OF create_bulk_api_read_job_query [of "JStr []"]]] by simp
  from r f have "res = Inr \<lparr>job_url = bulk_url example_creator_hook ''app'' ''view'',
                job_id = JStr ''2000000018003'', job_cursor = JStr ''1700000000000''\<rparr>"
    by simp
  with r n1 n2 show ?thesis
    by (simp add: s u q)
qed

subsection \<open>Requests of the Inventory hook\<close>













subsection \<open>Operations that need an id\<close>



end
